theory Spec2Isabelle
  imports Main
begin

section \<open>JavaScript values\<close>

text \<open>
  The builders of \<^verbatim>\<open>fhir-to-qrda.ts\<close> return \<^verbatim>\<open>Record<string, any>\<close>: untyped
  object trees. They are modelled as such: an object is the list of its keys and values
  in the order the literal writes them, an array is a list, and \<^verbatim>\<open>undefined\<close> is a
  value of its own (a key whose value is \<^verbatim>\<open>undefined\<close> stays in the object, as in
  JavaScript).
\<close>

datatype jsval =
    JUndefined
  | JString string
  | JArray "jsval list"
  | JObject "(string \<times> jsval) list"

text \<open>An optional string read as a value: absent is \<^verbatim>\<open>undefined\<close>.\<close>

definition optString :: "string option \<Rightarrow> jsval" where
  "optString x = (case x of None \<Rightarrow> JUndefined | Some s \<Rightarrow> JString s)"

text \<open>String coercion of an optional string, as a template literal and \<^verbatim>\<open>+\<close> do it.\<close>

definition toStr :: "string option \<Rightarrow> string" where
  "toStr x = (case x of None \<Rightarrow> ''undefined'' | Some s \<Rightarrow> s)"

text \<open>\<^verbatim>\<open>x ?? d\<close>: the default only when \<^verbatim>\<open>x\<close> is undefined.\<close>

definition nullish :: "'a option \<Rightarrow> 'a \<Rightarrow> 'a" where
  "nullish x d = (case x of None \<Rightarrow> d | Some v \<Rightarrow> v)"

text \<open>\<^verbatim>\<open>x || d\<close> on an optional string: the default when \<^verbatim>\<open>x\<close> is undefined or empty.\<close>

definition orElse :: "string option \<Rightarrow> string \<Rightarrow> string" where
  "orElse x d = (case x of None \<Rightarrow> d | Some s \<Rightarrow> if s = [] then d else s)"

text \<open>\<^verbatim>\<open>xs[0]\<close>: undefined on the empty array.\<close>

definition index0 :: "'a list \<Rightarrow> 'a option" where
  "index0 xs = (case xs of [] \<Rightarrow> None | x # _ \<Rightarrow> Some x)"

text \<open>\<^verbatim>\<open>Boolean(v)\<close>, the predicate of \<^verbatim>\<open>.filter(Boolean)\<close>.\<close>

fun Boolean :: "jsval \<Rightarrow> bool" where
  "Boolean JUndefined = False"
| "Boolean (JString s) = (s \<noteq> [])"
| "Boolean (JArray _) = True"
| "Boolean (JObject _) = True"

text \<open>Reading a tree: a property of an object, an element of an array, a path of both.\<close>

datatype PathStep = Key string | Index nat

fun nthOpt :: "'a list \<Rightarrow> nat \<Rightarrow> 'a option" where
  "nthOpt [] n = None"
| "nthOpt (x # xs) 0 = Some x"
| "nthOpt (x # xs) (Suc n) = nthOpt xs n"

fun getStep :: "PathStep \<Rightarrow> jsval \<Rightarrow> jsval option" where
  "getStep (Key k) (JObject kvs) = map_of kvs k"
| "getStep (Index n) (JArray vs) = nthOpt vs n"
| "getStep _ _ = None"

fun getPath :: "PathStep list \<Rightarrow> jsval \<Rightarrow> jsval option" where
  "getPath [] v = Some v"
| "getPath (k # ks) v = (case getStep k v of None \<Rightarrow> None | Some u \<Rightarrow> getPath ks u)"

section \<open>Inputs\<close>

subsection \<open>The FHIR bundle\<close>

text \<open>
  The fields of \<^verbatim>\<open>@medplum/fhirtypes\<close> that the converter reads. \<^verbatim>\<open>findResource\<close>
  compares the \<^verbatim>\<open>resourceType\<close> tag and casts unchecked (\<^verbatim>\<open>as T\<close>), so a resource
  is an object with its tag and the Patient fields the converter reads from it; a field
  the object lacks reads as undefined.
\<close>

record HumanName =
  name_given :: "string list option"
  name_family :: "string option"

record Address =
  addr_line :: "string list option"
  addr_city :: "string option"
  addr_state :: "string option"
  addr_postalCode :: "string option"
  addr_country :: "string option"

record ContactPoint =
  cp_system :: "string option"
  cp_value :: "string option"

record Resource =
  resourceType :: string
  pat_id :: "string option"
  pat_name :: "HumanName list option"
  pat_address :: "Address list option"
  pat_telecom :: "ContactPoint list option"
  pat_gender :: "string option"
  pat_birthDate :: "string option"

type_synonym Patient = Resource

record BundleEntry =
  entry_resource :: "Resource option"

record Bundle =
  bundle_entry :: "BundleEntry list option"

subsection \<open>FhirToQrdaOptions\<close>

datatype Category = CategoryI | CategoryIII

record MeasureOptions =
  measure_id :: "string option"
  measure_title :: "string option"
  measure_version :: "string option"
  measure_setId :: "string option"

record ReportingPeriod =
  period_start :: string
  period_end :: string

record OrganizationAddress =
  orgaddr_line :: "string option"
  orgaddr_city :: "string option"
  orgaddr_state :: "string option"
  orgaddr_postalCode :: "string option"
  orgaddr_country :: "string option"

record OrganizationOptions =
  org_name :: "string option"
  org_id :: "string option"
  org_npi :: "string option"
  org_address :: "OrganizationAddress option"

record AuthorOptions =
  author_name :: "string option"
  author_npi :: "string option"

record FhirToQrdaOptions =
  opt_category :: "Category option"
  opt_measure :: "MeasureOptions option"
  opt_reportingPeriod :: ReportingPeriod
  opt_organization :: "OrganizationOptions option"
  opt_author :: "AuthorOptions option"

section \<open>Imports of the converter that are not part of it\<close>

text \<open>
  The object identifiers of \<^verbatim>\<open>./oids\<close> and \<^verbatim>\<open>./qrda-oids\<close> are string constants
  declared elsewhere; the converter and the template tables are parameterised by them.
\<close>

record Oids =
  OID_HL7_REGISTERED_MODELS :: string
  OID_LOINC_CODE_SYSTEM :: string
  OID_US_REALM_CDA_HEADER :: string
  OID_CCN_SYSTEM :: string
  OID_CMS_EHR_CERTIFICATION_NUMBER :: string
  OID_ECQM_VERSION_SPECIFIC_ID :: string
  OID_ITIN_ID :: string
  OID_ORGANIZATION_ID :: string
  OID_PATIENT_ID :: string
  OID_CMS_QRDA_CATEGORY_I :: string
  OID_EMEASURE_REFERENCE_QDM :: string
  OID_MEASURE_REFERENCE :: string
  OID_MEASURE_SECTION :: string
  OID_MEASURE_SECTION_QDM :: string
  OID_PATIENT_DATA_SECTION :: string
  OID_PATIENT_DATA_SECTION_QDM_V8 :: string
  OID_PATIENT_DATA_SECTION_QDM_V8_CMS :: string
  OID_QDM_BASED_QRDA :: string
  OID_QRDA_CATEGORY_I :: string
  OID_REPORTING_PARAMETERS_ACT :: string
  OID_REPORTING_PARAMETERS_ACT_CMS :: string
  OID_REPORTING_PARAMETERS_SECTION :: string
  OID_REPORTING_PARAMETERS_SECTION_CMS :: string

text \<open>
  The three effectful or external calls: \<^verbatim>\<open>new Date().toISOString()\<close> and
  \<^verbatim>\<open>generateId()\<close> read and advance the world \<open>'w\<close>;
  \<^verbatim>\<open>mapFhirToCcdaDateTime\<close> is pure and either returns a value or throws \<open>'x\<close>.
\<close>

record ('w, 'x) Collaborators =
  newDateToISOString :: "'w \<Rightarrow> string \<times> 'w"
  generateId :: "'w \<Rightarrow> string \<times> 'w"
  mapFhirToCcdaDateTime :: "string \<Rightarrow> 'x + jsval"

section \<open>Constant tables\<close>

subsection \<open>qrda-systems\<close>

definition LOINC_MEASURE_DOCUMENT :: string where
  "LOINC_MEASURE_DOCUMENT = ''55186-1''"

definition LOINC_PATIENT_DATA :: string where
  "LOINC_PATIENT_DATA = ''55188-7''"

definition LOINC_QUALITY_MEASURE_REPORT :: string where
  "LOINC_QUALITY_MEASURE_REPORT = ''55182-0''"

definition LOINC_REPORTING_PARAMETERS :: string where
  "LOINC_REPORTING_PARAMETERS = ''55187-9''"

definition SNOMED_OBSERVATION_PARAMETERS :: string where
  "SNOMED_OBSERVATION_PARAMETERS = ''252116004''"

definition CMS68V14_MEASURE_GUID :: string where
  "CMS68V14_MEASURE_GUID = ''9A032D9C-3D9B-11E1-8634-00237D5BF174''"

subsection \<open>qrda-templates\<close>

definition QRDA_CATEGORY_I_TEMPLATE_IDS :: "Oids \<Rightarrow> jsval" where
  "QRDA_CATEGORY_I_TEMPLATE_IDS K = JArray [
     JObject [(''@_root'', JString (OID_US_REALM_CDA_HEADER K)), (''@_extension'', JString ''2015-08-01'')],
     JObject [(''@_root'', JString (OID_QRDA_CATEGORY_I K)), (''@_extension'', JString ''2017-08-01'')],
     JObject [(''@_root'', JString (OID_QDM_BASED_QRDA K)), (''@_extension'', JString ''2021-08-01'')],
     JObject [(''@_root'', JString (OID_CMS_QRDA_CATEGORY_I K)), (''@_extension'', JString ''2022-02-01'')]]"

definition QRDA_MEASURE_SECTION_TEMPLATE_IDS :: "Oids \<Rightarrow> jsval" where
  "QRDA_MEASURE_SECTION_TEMPLATE_IDS K = JArray [
     JObject [(''@_root'', JString (OID_MEASURE_SECTION K))],
     JObject [(''@_root'', JString (OID_MEASURE_SECTION_QDM K))]]"

definition QRDA_REPORTING_PARAMETERS_TEMPLATE_IDS :: "Oids \<Rightarrow> jsval" where
  "QRDA_REPORTING_PARAMETERS_TEMPLATE_IDS K = JArray [
     JObject [(''@_root'', JString (OID_REPORTING_PARAMETERS_SECTION K))],
     JObject [(''@_root'', JString (OID_REPORTING_PARAMETERS_SECTION_CMS K)),
              (''@_extension'', JString ''2016-03-01'')]]"

definition QRDA_PATIENT_DATA_SECTION_TEMPLATE_IDS :: "Oids \<Rightarrow> jsval" where
  "QRDA_PATIENT_DATA_SECTION_TEMPLATE_IDS K = JArray [
     JObject [(''@_root'', JString (OID_PATIENT_DATA_SECTION K))],
     JObject [(''@_root'', JString (OID_PATIENT_DATA_SECTION_QDM_V8 K)),
              (''@_extension'', JString ''2021-08-01'')],
     JObject [(''@_root'', JString (OID_PATIENT_DATA_SECTION_QDM_V8_CMS K)),
              (''@_extension'', JString ''2022-02-01'')]]"

definition QRDA_MEASURE_REFERENCE_TEMPLATE_IDS :: "Oids \<Rightarrow> jsval" where
  "QRDA_MEASURE_REFERENCE_TEMPLATE_IDS K = JArray [
     JObject [(''@_root'', JString (OID_MEASURE_REFERENCE K))],
     JObject [(''@_root'', JString (OID_EMEASURE_REFERENCE_QDM K))]]"

definition QRDA_REPORTING_PARAMETERS_ACT_TEMPLATE_IDS :: "Oids \<Rightarrow> jsval" where
  "QRDA_REPORTING_PARAMETERS_ACT_TEMPLATE_IDS K = JArray [
     JObject [(''@_root'', JString (OID_REPORTING_PARAMETERS_ACT K))],
     JObject [(''@_root'', JString (OID_REPORTING_PARAMETERS_ACT_CMS K)),
              (''@_extension'', JString ''2016-03-01'')]]"

section \<open>Calls that change the world or throw\<close>

text \<open>
  A call returns a value or throws, and leaves a world: what it did before a throw stays
  done. \<open>Error m\<close> is \<^verbatim>\<open>new Error(m)\<close>; \<open>Propagated x\<close> is whatever
  \<^verbatim>\<open>mapFhirToCcdaDateTime\<close> threw, passed on unchanged (nothing in the converter
  catches).
\<close>

datatype 'x Thrown = Error string | Propagated 'x

type_synonym ('w, 'x, 'a) Call = "'w \<Rightarrow> ('x Thrown + 'a) \<times> 'w"

definition ret :: "'a \<Rightarrow> ('w, 'x, 'a) Call" where
  "ret v = (\<lambda>w. (Inr v, w))"

definition throw :: "'x Thrown \<Rightarrow> ('w, 'x, 'a) Call" where
  "throw e = (\<lambda>w. (Inl e, w))"

definition andThen :: "('w, 'x, 'a) Call \<Rightarrow> ('a \<Rightarrow> ('w, 'x, 'b) Call) \<Rightarrow> ('w, 'x, 'b) Call" where
  "andThen m f = (\<lambda>w. case m w of (Inl e, w') \<Rightarrow> (Inl e, w') | (Inr v, w') \<Rightarrow> f v w')"

definition callNewDateToISOString :: "('w, 'x) Collaborators \<Rightarrow> ('w, 'x, string) Call" where
  "callNewDateToISOString C = (\<lambda>w. case newDateToISOString C w of (t, w') \<Rightarrow> (Inr t, w'))"

definition callGenerateId :: "('w, 'x) Collaborators \<Rightarrow> ('w, 'x, string) Call" where
  "callGenerateId C = (\<lambda>w. case generateId C w of (i, w') \<Rightarrow> (Inr i, w'))"

definition callMapFhirToCcdaDateTime :: "('w, 'x) Collaborators \<Rightarrow> string \<Rightarrow> ('w, 'x, jsval) Call" where
  "callMapFhirToCcdaDateTime C s =
     (\<lambda>w. (case mapFhirToCcdaDateTime C s of Inl x \<Rightarrow> Inl (Propagated x) | Inr v \<Rightarrow> Inr v, w))"

section \<open>FhirToQrdaConverter\<close>

record FhirToQrdaConverter =
  this_bundle :: Bundle
  this_options :: FhirToQrdaOptions
  this_patient :: Patient

text \<open>
  \<^verbatim>\<open>this.bundle.entry?.find((e) => e.resource?.resourceType === resourceType)?.resource\<close>
\<close>

definition findResource :: "Bundle \<Rightarrow> string \<Rightarrow> Resource option" where
  "findResource b rt =
     Option.bind
       (Option.bind (bundle_entry b)
          (find (\<lambda>e. map_option resourceType (entry_resource e) = Some rt)))
       entry_resource"

text \<open>The constructor: stores its arguments, finds the patient, throws when there is none.\<close>

definition newFhirToQrdaConverter ::
  "Bundle \<Rightarrow> FhirToQrdaOptions \<Rightarrow> ('w, 'x, FhirToQrdaConverter) Call" where
  "newFhirToQrdaConverter b opts =
     (case findResource b ''Patient'' of
        None \<Rightarrow> throw (Error ''Patient not found in bundle'')
      | Some patient \<Rightarrow>
          ret \<lparr>this_bundle = b, this_options = opts, this_patient = patient\<rparr>)"

text \<open>
  In the builders below a call that can throw or that changes the world is bound, in
  the order JavaScript evaluates the object literal, before the object is returned; the
  expressions between them are pure.
\<close>

definition buildRecordTarget ::
  "('w, 'x) Collaborators \<Rightarrow> Oids \<Rightarrow> FhirToQrdaConverter \<Rightarrow> ('w, 'x, jsval) Call" where
  "buildRecordTarget C K this =
    (let patientName = Option.bind (pat_name (this_patient this)) index0;
         address = Option.bind (pat_address (this_patient this)) index0;
         telecom = Option.bind (pat_telecom (this_patient this))
                     (find (\<lambda>t. cp_system t = Some ''phone''));
         email = Option.bind (pat_telecom (this_patient this))
                     (find (\<lambda>t. cp_system t = Some ''email''));
         raceCode = ''2106-3'';
         ethnicityCode = ''2135-2''
     in andThen
          (callMapFhirToCcdaDateTime C (toStr (pat_birthDate (this_patient this)) @ ''T00:00:00.000Z''))
          (\<lambda>birthTime. ret (JObject [
      (''patientRole'', JObject [
        (''id'', JObject [
          (''@_extension'', optString (pat_id (this_patient this))),
          (''@_root'', JString (OID_PATIENT_ID K))]),
        (''addr'',
          (case address of
             Some a \<Rightarrow> JObject [
               (''@_use'', JString ''HP''),
               (''streetAddressLine'', JString (nullish (Option.bind (addr_line a) index0) '''')),
               (''city'', JString (nullish (addr_city a) '''')),
               (''state'', JString (nullish (addr_state a) '''')),
               (''postalCode'', JString (nullish (addr_postalCode a) '''')),
               (''country'', JString (orElse (addr_country a) ''US''))]
           | None \<Rightarrow> JUndefined)),
        (''telecom'', JArray (filter Boolean [
          (case telecom of
             Some t \<Rightarrow> JObject [(''@_use'', JString ''HP''),
                                 (''@_value'', JString (''tel:'' @ toStr (cp_value t)))]
           | None \<Rightarrow> JUndefined),
          (case email of
             Some t \<Rightarrow> JObject [(''@_use'', JString ''HP''),
                                 (''@_value'', JString (''mailto:'' @ toStr (cp_value t)))]
           | None \<Rightarrow> JUndefined)])),
        (''patient'', JObject [
          (''name'', JObject [
            (''given'', JString (nullish
               (Option.bind (Option.bind patientName name_given) index0) '''')),
            (''family'', JString (nullish (Option.bind patientName name_family) ''''))]),
          (''administrativeGenderCode'', JObject [
            (''@_code'', optString (pat_gender (this_patient this))),
            (''@_codeSystem'', JString ''2.16.840.1.113883.5.1''),
            (''@_codeSystemName'', JString ''AdministrativeGender'')]),
          (''birthTime'', JObject [(''@_value'', birthTime)]),
          (''raceCode'', JObject [
            (''@_code'', JString raceCode),
            (''@_codeSystem'', JString ''2.16.840.1.113883.6.238''),
            (''@_codeSystemName'', JString ''CDCREC'')]),
          (''ethnicGroupCode'', JObject [
            (''@_code'', JString ethnicityCode),
            (''@_codeSystem'', JString ''2.16.840.1.113883.6.238''),
            (''@_codeSystemName'', JString ''CDCREC'')]),
          (''languageCommunication'', JObject [
            (''templateId'', JArray [
              JObject [(''@_root'', JString ''2.16.840.1.113883.3.88.11.83.2''),
                       (''@_assigningAuthorityName'', JString ''HITSP/C83'')],
              JObject [(''@_root'', JString ''1.3.6.1.4.1.19376.1.5.3.1.2.1''),
                       (''@_assigningAuthorityName'', JString ''IHE/PCC'')]]),
            (''languageCode'', JObject [(''@_code'', JString ''eng'')])])])])])))"

definition buildAuthor ::
  "('w, 'x) Collaborators \<Rightarrow> FhirToQrdaConverter \<Rightarrow> string \<Rightarrow> ('w, 'x, jsval) Call" where
  "buildAuthor C this currentDateTime =
    (let authorNpi = orElse (Option.bind (opt_author (this_options this)) author_npi) ''1250504853'';
         authorName = orElse (Option.bind (opt_author (this_options this)) author_name)
                        ''Medplum Test System'';
         orgAddress = Option.bind (opt_organization (this_options this)) org_address
     in andThen (callMapFhirToCcdaDateTime C currentDateTime) (\<lambda>time. ret (JObject [
      (''time'', JObject [(''@_value'', time)]),
      (''assignedAuthor'', JObject [
        (''id'', JObject [(''@_extension'', JString authorNpi),
                          (''@_root'', JString ''2.16.840.1.113883.4.6'')]),
        (''addr'', JObject [
          (''streetAddressLine'', JString (orElse (Option.bind orgAddress orgaddr_line) ''123 Happy St'')),
          (''city'', JString (orElse (Option.bind orgAddress orgaddr_city) ''Sunnyvale'')),
          (''state'', JString (orElse (Option.bind orgAddress orgaddr_state) ''CA'')),
          (''postalCode'', JString (orElse (Option.bind orgAddress orgaddr_postalCode) ''95008'')),
          (''country'', JString (orElse (Option.bind orgAddress orgaddr_country) ''US''))]),
        (''telecom'', JObject [(''@_use'', JString ''WP''), (''@_value'', JString ''tel:(781)271-3000'')]),
        (''assignedAuthoringDevice'', JObject [
          (''manufacturerModelName'', JString authorName),
          (''softwareName'', JString authorName)])])])))"

definition buildCustodian :: "Oids \<Rightarrow> FhirToQrdaConverter \<Rightarrow> jsval" where
  "buildCustodian K this =
    (let orgName = orElse (Option.bind (opt_organization (this_options this)) org_name)
                     ''Medplum Test Deck'';
         orgId = orElse (Option.bind (opt_organization (this_options this)) org_id) ''117323'';
         orgAddress = Option.bind (opt_organization (this_options this)) org_address
     in JObject [
      (''assignedCustodian'', JObject [
        (''representedCustodianOrganization'', JObject [
          (''id'', JObject [(''@_extension'', JString orgId), (''@_root'', JString (OID_CCN_SYSTEM K))]),
          (''name'', JString orgName),
          (''telecom'', JObject [(''@_use'', JString ''WP''), (''@_value'', JString ''tel:(781)271-3000'')]),
          (''addr'', JObject [
            (''@_use'', JString ''HP''),
            (''streetAddressLine'', JString (orElse (Option.bind orgAddress orgaddr_line) ''202 Burlington Rd.'')),
            (''city'', JString (orElse (Option.bind orgAddress orgaddr_city) ''Bedford'')),
            (''state'', JString (orElse (Option.bind orgAddress orgaddr_state) ''MA'')),
            (''postalCode'', JString (orElse (Option.bind orgAddress orgaddr_postalCode) ''01730'')),
            (''country'', JString (orElse (Option.bind orgAddress orgaddr_country) ''US''))])])])])"

definition buildLegalAuthenticator ::
  "('w, 'x) Collaborators \<Rightarrow> Oids \<Rightarrow> FhirToQrdaConverter \<Rightarrow> string \<Rightarrow> ('w, 'x, jsval) Call" where
  "buildLegalAuthenticator C K this currentDateTime =
    (let orgAddress = Option.bind (opt_organization (this_options this)) org_address
     in andThen (callMapFhirToCcdaDateTime C currentDateTime) (\<lambda>time.
        andThen (callGenerateId C) (\<lambda>entityId. ret (JObject [
      (''time'', JObject [(''@_value'', time)]),
      (''signatureCode'', JObject [(''@_code'', JString ''S'')]),
      (''assignedEntity'', JObject [
        (''id'', JObject [(''@_root'', JString entityId)]),
        (''addr'', JObject [
          (''streetAddressLine'', JString (orElse (Option.bind orgAddress orgaddr_line) ''123 Happy St'')),
          (''city'', JString (orElse (Option.bind orgAddress orgaddr_city) ''Sunnyvale'')),
          (''state'', JString (orElse (Option.bind orgAddress orgaddr_state) ''CA'')),
          (''postalCode'', JString (orElse (Option.bind orgAddress orgaddr_postalCode) ''95008'')),
          (''country'', JString (orElse (Option.bind orgAddress orgaddr_country) ''US''))]),
        (''telecom'', JObject [(''@_use'', JString ''WP''), (''@_value'', JString ''tel:(781)271-3000'')]),
        (''assignedPerson'', JObject [
          (''name'', JObject [(''given'', JString ''John''), (''family'', JString ''Doe'')])]),
        (''representedOrganization'', JObject [
          (''id'', JObject [(''@_root'', JString (OID_ORGANIZATION_ID K))]),
          (''name'', JString (orElse (Option.bind (opt_organization (this_options this)) org_name)
                               ''Medplum Test System''))])])]))))"

definition buildParticipant :: "Oids \<Rightarrow> jsval" where
  "buildParticipant K = JArray [
     JObject [
       (''@_typeCode'', JString ''DEV''),
       (''associatedEntity'', JObject [
         (''@_classCode'', JString ''RGPR''),
         (''id'', JObject [(''@_extension'', JString ''0015CPV4ZTB4WBU''),
                           (''@_root'', JString (OID_CMS_EHR_CERTIFICATION_NUMBER K))])])]]"

definition buildDocumentationOf :: "Oids \<Rightarrow> FhirToQrdaConverter \<Rightarrow> jsval" where
  "buildDocumentationOf K this =
    (let orgAddress = Option.bind (opt_organization (this_options this)) org_address
     in JObject [
      (''@_typeCode'', JString ''DOC''),
      (''serviceEvent'', JObject [
        (''@_classCode'', JString ''PCPR''),
        (''effectiveTime'', JObject [
          (''low'', JObject [(''@_nullFlavor'', JString ''UNK'')]),
          (''high'', JObject [(''@_nullFlavor'', JString ''UNK'')])]),
        (''performer'', JObject [
          (''@_typeCode'', JString ''PRF''),
          (''time'', JObject [
            (''low'', JObject [(''@_nullFlavor'', JString ''UNK'')]),
            (''high'', JObject [(''@_nullFlavor'', JString ''UNK'')])]),
          (''assignedEntity'', JObject [
            (''id'', JArray [
              JObject [(''@_extension'', JString (orElse (Option.bind (opt_author (this_options this)) author_npi)
                                                   ''1250504853'')),
                       (''@_root'', JString ''2.16.840.1.113883.4.6'')],
              JObject [(''@_extension'', JString (orElse (Option.bind (opt_organization (this_options this)) org_id)
                                                   ''117323'')),
                       (''@_root'', JString (OID_CCN_SYSTEM K))]]),
            (''code'', JObject [
              (''@_code'', JString ''207Q00000X''),
              (''@_codeSystem'', JString ''2.16.840.1.113883.6.101''),
              (''@_codeSystemName'', JString ''Healthcare Provider Taxonomy (HIPAA)'')]),
            (''addr'', JObject [
              (''@_use'', JString ''HP''),
              (''streetAddressLine'', JString (orElse (Option.bind orgAddress orgaddr_line) ''202 Burlington Rd.'')),
              (''city'', JString (orElse (Option.bind orgAddress orgaddr_city) ''Bedford'')),
              (''state'', JString (orElse (Option.bind orgAddress orgaddr_state) ''MA'')),
              (''postalCode'', JString (orElse (Option.bind orgAddress orgaddr_postalCode) ''01730'')),
              (''country'', JString (orElse (Option.bind orgAddress orgaddr_country) ''US''))]),
            (''assignedPerson'', JObject [
              (''name'', JObject [(''given'', JString ''Sylvia''), (''family'', JString ''Joseph'')])]),
            (''representedOrganization'', JObject [
              (''id'', JObject [(''@_extension'', JString ''916854671''),
                                (''@_root'', JString (OID_ITIN_ID K))]),
              (''addr'', JObject [
                (''@_use'', JString ''HP''),
                (''streetAddressLine'', JString (orElse (Option.bind orgAddress orgaddr_line) ''202 Burlington Rd.'')),
                (''city'', JString (orElse (Option.bind orgAddress orgaddr_city) ''Bedford'')),
                (''state'', JString (orElse (Option.bind orgAddress orgaddr_state) ''MA'')),
                (''postalCode'', JString (orElse (Option.bind orgAddress orgaddr_postalCode) ''01730'')),
                (''country'', JString (orElse (Option.bind orgAddress orgaddr_country) ''US''))])])])])])])"

definition buildMeasureSection ::
  "('w, 'x) Collaborators \<Rightarrow> Oids \<Rightarrow> FhirToQrdaConverter \<Rightarrow> ('w, 'x, jsval) Call" where
  "buildMeasureSection C K this =
    (let measureId = orElse (Option.bind (opt_measure (this_options this)) measure_id) ''CMS68v14'';
         measureTitle = orElse (Option.bind (opt_measure (this_options this)) measure_title)
           ''Percentage of visits for which the eligible clinician attests to documenting a list of current medications using all immediate resources available on the date of the encounter'';
         measureVersionId = ''8A6D0454-8DF0-2D9F-018D-F6AEBA950637''
     in andThen (callGenerateId C) (\<lambda>organizerId. ret (JObject [
      (''section'', JObject [
        (''templateId'', QRDA_MEASURE_SECTION_TEMPLATE_IDS K),
        (''code'', JObject [(''@_code'', JString LOINC_MEASURE_DOCUMENT),
                            (''@_codeSystem'', JString (OID_LOINC_CODE_SYSTEM K))]),
        (''title'', JString ''Measure Section''),
        (''text'', JObject [
          (''table'', JObject [
            (''@_border'', JString ''1''),
            (''@_width'', JString ''100%''),
            (''thead'', JObject [
              (''tr'', JObject [
                (''th'', JArray [JString ''eMeasure Title'', JString ''Version specific identifier''])])]),
            (''tbody'', JObject [
              (''tr'', JObject [
                (''td'', JArray [JString measureTitle, JString measureVersionId, JString ''''])])])])]),
        (''entry'', JObject [
          (''organizer'', JObject [
            (''@_classCode'', JString ''CLUSTER''),
            (''@_moodCode'', JString ''EVN''),
            (''templateId'', QRDA_MEASURE_REFERENCE_TEMPLATE_IDS K),
            (''id'', JObject [(''@_extension'', JString organizerId),
                              (''@_root'', JString (OID_PATIENT_ID K))]),
            (''statusCode'', JObject [(''@_code'', JString ''completed'')]),
            (''reference'', JObject [
              (''@_typeCode'', JString ''REFR''),
              (''externalDocument'', JObject [
                (''@_classCode'', JString ''DOC''),
                (''@_moodCode'', JString ''EVN''),
                (''id'', JObject [(''@_extension'', JString measureVersionId),
                                  (''@_root'', JString (OID_ECQM_VERSION_SPECIFIC_ID K))]),
                (''text'', JString measureTitle),
                (''setId'', JObject [
                  (''@_root'', JString (orElse (Option.bind (opt_measure (this_options this)) measure_setId)
                                         CMS68V14_MEASURE_GUID))])])])])])])])))"

definition buildReportingParametersSection ::
  "('w, 'x) Collaborators \<Rightarrow> Oids \<Rightarrow> FhirToQrdaConverter \<Rightarrow> ('w, 'x, jsval) Call" where
  "buildReportingParametersSection C K this =
     andThen (callGenerateId C) (\<lambda>actId.
     andThen (callMapFhirToCcdaDateTime C (period_start (opt_reportingPeriod (this_options this)))) (\<lambda>low.
     andThen (callMapFhirToCcdaDateTime C (period_end (opt_reportingPeriod (this_options this)))) (\<lambda>high.
     ret (JObject [
      (''section'', JObject [
        (''templateId'', QRDA_REPORTING_PARAMETERS_TEMPLATE_IDS K),
        (''code'', JObject [(''@_code'', JString LOINC_REPORTING_PARAMETERS),
                            (''@_codeSystem'', JString (OID_LOINC_CODE_SYSTEM K))]),
        (''title'', JString ''Reporting Parameters''),
        (''text'', JString ''''),
        (''entry'', JObject [
          (''@_typeCode'', JString ''DRIV''),
          (''act'', JObject [
            (''@_classCode'', JString ''ACT''),
            (''@_moodCode'', JString ''EVN''),
            (''templateId'', QRDA_REPORTING_PARAMETERS_ACT_TEMPLATE_IDS K),
            (''id'', JObject [(''@_extension'', JString actId),
                              (''@_root'', JString (OID_PATIENT_ID K))]),
            (''code'', JObject [
              (''@_code'', JString SNOMED_OBSERVATION_PARAMETERS),
              (''@_codeSystem'', JString ''2.16.840.1.113883.6.96''),
              (''@_displayName'', JString ''Observation Parameters'')]),
            (''effectiveTime'', JObject [
              (''low'', JObject [(''@_value'', low)]),
              (''high'', JObject [(''@_value'', high)])])])])])]))))"

definition buildPatientDataSection :: "Oids \<Rightarrow> jsval" where
  "buildPatientDataSection K =
    (let entries = []
     in JObject [
      (''section'', JObject [
        (''templateId'', QRDA_PATIENT_DATA_SECTION_TEMPLATE_IDS K),
        (''code'', JObject [(''@_code'', JString LOINC_PATIENT_DATA),
                            (''@_codeSystem'', JString (OID_LOINC_CODE_SYSTEM K))]),
        (''title'', JString ''Patient Data''),
        (''text'', JString ''''),
        (''entry'', JArray entries)])])"

definition buildStructuredBody ::
  "('w, 'x) Collaborators \<Rightarrow> Oids \<Rightarrow> FhirToQrdaConverter \<Rightarrow> ('w, 'x, jsval) Call" where
  "buildStructuredBody C K this =
     andThen (buildMeasureSection C K this) (\<lambda>measureSection.
     andThen (buildReportingParametersSection C K this) (\<lambda>reportingParametersSection.
     ret (JObject [
      (''structuredBody'', JObject [
        (''component'', JArray [measureSection, reportingParametersSection,
                                 buildPatientDataSection K])])])))"

definition convert ::
  "('w, 'x) Collaborators \<Rightarrow> Oids \<Rightarrow> FhirToQrdaConverter \<Rightarrow> ('w, 'x, jsval) Call" where
  "convert C K this =
     andThen (callNewDateToISOString C) (\<lambda>currentDateTime.
     andThen (callGenerateId C) (\<lambda>documentId.
     andThen (callMapFhirToCcdaDateTime C currentDateTime) (\<lambda>effectiveTime.
     andThen (buildRecordTarget C K this) (\<lambda>recordTarget.
     andThen (buildAuthor C this currentDateTime) (\<lambda>author.
     andThen (buildLegalAuthenticator C K this currentDateTime) (\<lambda>legalAuthenticator.
     andThen (buildStructuredBody C K this) (\<lambda>component.
     ret (JObject [
      (''realmCode'', JObject [(''@_code'', JString ''US'')]),
      (''typeId'', JObject [(''@_root'', JString (OID_HL7_REGISTERED_MODELS K)),
                            (''@_extension'', JString ''POCD_HD000040'')]),
      (''templateId'', QRDA_CATEGORY_I_TEMPLATE_IDS K),
      (''id'', JArray [JObject [(''@_root'', JString documentId)]]),
      (''code'', JObject [
        (''@_code'', JString LOINC_QUALITY_MEASURE_REPORT),
        (''@_codeSystem'', JString (OID_LOINC_CODE_SYSTEM K)),
        (''@_codeSystemName'', JString ''LOINC''),
        (''@_displayName'', JString ''Quality Measure Report'')]),
      (''title'', JString ''QRDA Incidence Report''),
      (''effectiveTime'', JArray [JObject [(''@_value'', effectiveTime)]]),
      (''confidentialityCode'', JObject [(''@_code'', JString ''N''),
                                         (''@_codeSystem'', JString ''2.16.840.1.113883.5.25'')]),
      (''languageCode'', JObject [(''@_code'', JString ''en'')]),
      (''recordTarget'', recordTarget),
      (''author'', author),
      (''custodian'', buildCustodian K this),
      (''legalAuthenticator'', legalAuthenticator),
      (''participant'', buildParticipant K),
      (''documentationOf'', buildDocumentationOf K this),
      (''component'', component)]))))))))"

text \<open>\<^verbatim>\<open>new FhirToQrdaConverter(bundle, options).convert()\<close>\<close>

definition convertFhirToQrda ::
  "('w, 'x) Collaborators \<Rightarrow> Oids \<Rightarrow> Bundle \<Rightarrow> FhirToQrdaOptions \<Rightarrow> ('w, 'x, jsval) Call" where
  "convertFhirToQrda C K bundle options =
     andThen (newFhirToQrdaConverter bundle options) (convert C K)"

section \<open>Inputs on which the converter returns\<close>

text \<open>
  A valid input: the bundle holds a Patient (\<open>p\<close> is the one \<^verbatim>\<open>findResource\<close>
  returns, the first), and \<^verbatim>\<open>mapFhirToCcdaDateTime\<close> returns on the four timestamps
  the converter hands to it: the time read from the clock in world \<open>w\<close>, the patient's
  birth date at midnight UTC, and the two ends of the reporting period.
\<close>

definition validInput ::
  "('w, 'x) Collaborators \<Rightarrow> Bundle \<Rightarrow> FhirToQrdaOptions \<Rightarrow> 'w \<Rightarrow>
   Patient \<Rightarrow> jsval \<Rightarrow> jsval \<Rightarrow> jsval \<Rightarrow> jsval \<Rightarrow> bool" where
  "validInput C b opts w p tNow tBirth tLow tHigh \<longleftrightarrow>
     findResource b ''Patient'' = Some p \<and>
     mapFhirToCcdaDateTime C (fst (newDateToISOString C w)) = Inr tNow \<and>
     mapFhirToCcdaDateTime C (toStr (pat_birthDate p) @ ''T00:00:00.000Z'') = Inr tBirth \<and>
     mapFhirToCcdaDateTime C (period_start (opt_reportingPeriod opts)) = Inr tLow \<and>
     mapFhirToCcdaDateTime C (period_end (opt_reportingPeriod opts)) = Inr tHigh"

text \<open>The world after one reading of the clock and four generated identifiers.\<close>

definition worldAfterConvert :: "('w, 'x) Collaborators \<Rightarrow> 'w \<Rightarrow> 'w" where
  "worldAfterConvert C w =
     snd (generateId C (snd (generateId C (snd (generateId C (snd (generateId C
       (snd (newDateToISOString C w)))))))))"

section \<open>Example inputs\<close>

text \<open>
  Stand-ins for the collaborators, to run the converter on: the world is a counter, the
  clock and the identifier generator return a different string at each call, and the
  canonicalisation rejects the empty string and drops dashes and colons otherwise.
\<close>

definition exampleCollaborators :: "(nat, string) Collaborators" where
  "exampleCollaborators = \<lparr>
     newDateToISOString = (\<lambda>n. (''2024-03-01T10:20:3'' @ replicate (Suc n) CHR ''0'' @ ''Z'', Suc n)),
     generateId = (\<lambda>n. (''id-'' @ replicate n CHR ''i'', Suc n)),
     mapFhirToCcdaDateTime = (\<lambda>s. if s = [] then Inl ''unparseable''
        else Inr (JString (filter (\<lambda>c. c \<noteq> CHR ''-'' \<and> c \<noteq> CHR '':'') s)))\<rparr>"

definition exampleOids :: Oids where
  "exampleOids = \<lparr>
     OID_HL7_REGISTERED_MODELS = ''oid.1'',
     OID_LOINC_CODE_SYSTEM = ''oid.2'',
     OID_US_REALM_CDA_HEADER = ''oid.3'',
     OID_CCN_SYSTEM = ''oid.4'',
     OID_CMS_EHR_CERTIFICATION_NUMBER = ''oid.5'',
     OID_ECQM_VERSION_SPECIFIC_ID = ''oid.6'',
     OID_ITIN_ID = ''oid.7'',
     OID_ORGANIZATION_ID = ''oid.8'',
     OID_PATIENT_ID = ''oid.9'',
     OID_CMS_QRDA_CATEGORY_I = ''oid.10'',
     OID_EMEASURE_REFERENCE_QDM = ''oid.11'',
     OID_MEASURE_REFERENCE = ''oid.12'',
     OID_MEASURE_SECTION = ''oid.13'',
     OID_MEASURE_SECTION_QDM = ''oid.14'',
     OID_PATIENT_DATA_SECTION = ''oid.15'',
     OID_PATIENT_DATA_SECTION_QDM_V8 = ''oid.16'',
     OID_PATIENT_DATA_SECTION_QDM_V8_CMS = ''oid.17'',
     OID_QDM_BASED_QRDA = ''oid.18'',
     OID_QRDA_CATEGORY_I = ''oid.19'',
     OID_REPORTING_PARAMETERS_ACT = ''oid.20'',
     OID_REPORTING_PARAMETERS_ACT_CMS = ''oid.21'',
     OID_REPORTING_PARAMETERS_SECTION = ''oid.22'',
     OID_REPORTING_PARAMETERS_SECTION_CMS = ''oid.23''\<rparr>"

definition examplePatient :: Patient where
  "examplePatient = \<lparr>
     resourceType = ''Patient'',
     pat_id = Some ''pat-1'',
     pat_name = Some [\<lparr>name_given = Some [''Ada'', ''M.''], name_family = Some ''Byron''\<rparr>],
     pat_address = Some [\<lparr>addr_line = None, addr_city = Some ''Boston'', addr_state = None,
                           addr_postalCode = None, addr_country = Some ''''\<rparr>],
     pat_telecom = Some [
       \<lparr>cp_system = Some ''fax'', cp_value = Some ''555-0000''\<rparr>,
       \<lparr>cp_system = Some ''phone'', cp_value = Some ''555-1234''\<rparr>,
       \<lparr>cp_system = Some ''email'', cp_value = Some ''ada@example.org''\<rparr>],
     pat_gender = Some ''female'',
     pat_birthDate = Some ''1980-02-03''\<rparr>"

definition exampleObservation :: Resource where
  "exampleObservation = \<lparr>
     resourceType = ''Observation'', pat_id = Some ''obs-1'', pat_name = None, pat_address = None,
     pat_telecom = None, pat_gender = None, pat_birthDate = None\<rparr>"

definition exampleBundle :: Bundle where
  "exampleBundle = \<lparr>bundle_entry = Some [
     \<lparr>entry_resource = None\<rparr>,
     \<lparr>entry_resource = Some exampleObservation\<rparr>,
     \<lparr>entry_resource = Some examplePatient\<rparr>]\<rparr>"

definition exampleBundleNoPatient :: Bundle where
  "exampleBundleNoPatient = \<lparr>bundle_entry = Some [
     \<lparr>entry_resource = None\<rparr>,
     \<lparr>entry_resource = Some exampleObservation\<rparr>]\<rparr>"

definition exampleOptions :: FhirToQrdaOptions where
  "exampleOptions = \<lparr>
     opt_category = None,
     opt_measure = None,
     opt_reportingPeriod = \<lparr>period_start = ''2023-01-01'', period_end = ''2023-12-31''\<rparr>,
     opt_organization = None,
     opt_author = None\<rparr>"

definition exampleMeasure :: MeasureOptions where
  "exampleMeasure = \<lparr>
     measure_id = Some ''CMS122v12'', measure_title = Some ''Diabetes: HbA1c Poor Control'',
     measure_version = Some ''12'', measure_setId = Some ''F2986519-5A4E-4149-A8F2-AF0A1DC7F6BC''\<rparr>"

section \<open>Unfolding the converter\<close>

lemmas call_defs =
  ret_def throw_def andThen_def callNewDateToISOString_def callGenerateId_def
  callMapFhirToCcdaDateTime_def

lemmas builder_defs =
  convertFhirToQrda_def newFhirToQrdaConverter_def convert_def buildRecordTarget_def
  buildAuthor_def buildLegalAuthenticator_def buildStructuredBody_def buildMeasureSection_def
  buildReportingParametersSection_def

section \<open>Finding the patient\<close>

lemma findResource_None:
  assumes "\<And>es e r. bundle_entry b = Some es \<Longrightarrow> e \<in> set es \<Longrightarrow> entry_resource e = Some r \<Longrightarrow>
             resourceType r \<noteq> rt"
  shows "findResource b rt = None"
proof (cases "bundle_entry b")
  case None
  then show ?thesis by (simp add: findResource_def)
next
  case (Some es)
  have "find (\<lambda>e. map_option resourceType (entry_resource e) = Some rt) es = None"
    using assms [OF Some] by (auto simp: find_None_iff)
  with Some show ?thesis by (simp add: findResource_def)
qed

text \<open>\<^verbatim>\<open>findResource\<close> returns a resource exactly when the bundle has an entry of that kind.\<close>

lemma findResource_Some_iff:
  "(\<exists>p. findResource b rt = Some p) \<longleftrightarrow>
   (\<exists>es e r. bundle_entry b = Some es \<and> e \<in> set es \<and> entry_resource e = Some r \<and> resourceType r = rt)"
proof
  assume "\<exists>p. findResource b rt = Some p"
  then obtain p where p: "findResource b rt = Some p" ..
  then obtain es e where es: "bundle_entry b = Some es"
    and e: "find (\<lambda>e. map_option resourceType (entry_resource e) = Some rt) es = Some e"
    and r: "entry_resource e = Some p"
    by (auto simp: findResource_def Option.bind_eq_Some_conv)
  from e have "e \<in> set es" and "map_option resourceType (entry_resource e) = Some rt"
    by (auto simp: find_Some_iff)
  with es r show "\<exists>es e r. bundle_entry b = Some es \<and> e \<in> set es \<and> entry_resource e = Some r \<and> resourceType r = rt"
    by auto
next
  assume "\<exists>es e r. bundle_entry b = Some es \<and> e \<in> set es \<and> entry_resource e = Some r \<and> resourceType r = rt"
  then obtain es e r where es: "bundle_entry b = Some es" and e: "e \<in> set es"
    and r: "entry_resource e = Some r" "resourceType r = rt" by blast
  let ?P = "\<lambda>e. map_option resourceType (entry_resource e) = Some rt"
  from e r have "?P e" by simp
  with e have "find ?P es \<noteq> None" by (auto simp: find_None_iff)
  then obtain e' where e': "find ?P es = Some e'" by blast
  then have "?P e'" by (auto simp: find_Some_iff)
  then obtain r' where "entry_resource e' = Some r'" by auto
  with es e' show "\<exists>p. findResource b rt = Some p"
    by (simp add: findResource_def)
qed

text \<open>The example input is valid, with these four canonical timestamps.\<close>

lemma example_valid:
  "validInput exampleCollaborators exampleBundle exampleOptions 0 examplePatient
     (JString ''20240301T102030Z'') (JString ''19800203T000000.000Z'')
     (JString ''20230101'') (JString ''20231231'')"
  by (simp add: validInput_def findResource_def exampleCollaborators_def exampleBundle_def
      exampleOptions_def examplePatient_def exampleObservation_def toStr_def)

section \<open>The missing patient\<close>

text \<open>
  Claim C1. For every bundle with no entry whose resource is of kind Patient (also a
  bundle with no entry list), \<^verbatim>\<open>convertFhirToQrda\<close> throws the constructor's error
  \<^verbatim>\<open>Error('Patient not found in bundle')\<close>, the missing-required-resource failure. It
  returns no document, and the world is the one it started in: the clock was not read and
  no identifier was generated, so no part of the output tree was built before the failure.
\<close>

theorem convertFhirToQrda_missing_patient:
  assumes "\<And>es e r. bundle_entry b = Some es \<Longrightarrow> e \<in> set es \<Longrightarrow> entry_resource e = Some r \<Longrightarrow>
             resourceType r \<noteq> ''Patient''"
  shows "convertFhirToQrda C K b opts w = (Inl (Error ''Patient not found in bundle''), w)"
proof -
  have "findResource b ''Patient'' = None"
    using assms by (rule findResource_None)
  then show ?thesis
    by (simp add: convertFhirToQrda_def newFhirToQrdaConverter_def andThen_def throw_def)
qed

theorem convertFhirToQrda_missing_patient_witness:
  "convertFhirToQrda exampleCollaborators exampleOids exampleBundleNoPatient exampleOptions 0
     = (Inl (Error ''Patient not found in bundle''), 0)"
  by (rule convertFhirToQrda_missing_patient)
     (auto simp: exampleBundleNoPatient_def exampleObservation_def)

section \<open>When the converter returns\<close>

text \<open>A few pure facts about the expressions the builders use.\<close>

lemma telecom_filter:
  "filter Boolean
     [case x of Some t \<Rightarrow> JObject (f t) | None \<Rightarrow> JUndefined,
      case y of Some t \<Rightarrow> JObject (g t) | None \<Rightarrow> JUndefined]
   = (case x of None \<Rightarrow> [] | Some t \<Rightarrow> [JObject (f t)]) @
     (case y of None \<Rightarrow> [] | Some t \<Rightarrow> [JObject (g t)])"
  by (simp split: option.splits)

lemma bind_find:
  "Option.bind xs (find P) = find P (case xs of None \<Rightarrow> [] | Some ts \<Rightarrow> ts)"
  by (cases xs) simp_all

lemma validInput_measure:
  "validInput C b (opts\<lparr>opt_measure := m\<rparr>) w p tNow tBirth tLow tHigh
     = validInput C b opts w p tNow tBirth tLow tHigh"
  by (simp add: validInput_def)

text \<open>On a valid input the converter returns a document.\<close>

lemma convertFhirToQrda_returns:
  assumes "validInput C b opts w p tNow tBirth tLow tHigh"
  shows "\<exists>doc. convertFhirToQrda C K b opts w = (Inr doc, worldAfterConvert C w)"
  using assms
  by (simp add: validInput_def builder_defs call_defs worldAfterConvert_def split_beta Let_def)

text \<open>
  And only on a valid input: without a patient the constructor throws, and an exception
  of \<^verbatim>\<open>mapFhirToCcdaDateTime\<close> on any of the four timestamps is passed on.
\<close>

lemma convertFhirToQrda_returns_valid:
  assumes "convertFhirToQrda C K b opts w = (Inr doc, w')"
  shows "\<exists>p tNow tBirth tLow tHigh. validInput C b opts w p tNow tBirth tLow tHigh"
proof (cases "findResource b ''Patient''")
  case None
  with assms show ?thesis
    by (simp add: convertFhirToQrda_def newFhirToQrdaConverter_def andThen_def throw_def)
next
  case (Some p)
  show ?thesis
  proof (cases "mapFhirToCcdaDateTime C (fst (newDateToISOString C w))")
    case (Inl x)
    with assms Some show ?thesis
      by (simp add: builder_defs call_defs split_beta Let_def)
  next
    case tNow: (Inr tNow)
    show ?thesis
    proof (cases "mapFhirToCcdaDateTime C (toStr (pat_birthDate p) @ ''T00:00:00.000Z'')")
      case (Inl x)
      with assms Some tNow show ?thesis
        by (simp add: builder_defs call_defs split_beta Let_def)
    next
      case tBirth: (Inr tBirth)
      show ?thesis
      proof (cases "mapFhirToCcdaDateTime C (period_start (opt_reportingPeriod opts))")
        case (Inl x)
        with assms Some tNow tBirth show ?thesis
          by (simp add: builder_defs call_defs split_beta Let_def)
      next
        case tLow: (Inr tLow)
        show ?thesis
        proof (cases "mapFhirToCcdaDateTime C (period_end (opt_reportingPeriod opts))")
          case (Inl x)
          with assms Some tNow tBirth tLow show ?thesis
            by (simp add: builder_defs call_defs split_beta Let_def)
        next
          case tHigh: (Inr tHigh)
          with Some tNow tBirth tLow show ?thesis
            unfolding validInput_def by blast
        qed
      qed
    qed
  qed
qed

lemma convertFhirToQrda_returns_iff:
  "(\<exists>doc w'. convertFhirToQrda C K b opts w = (Inr doc, w')) \<longleftrightarrow>
   (\<exists>p tNow tBirth tLow tHigh. validInput C b opts w p tNow tBirth tLow tHigh)"
proof
  assume "\<exists>doc w'. convertFhirToQrda C K b opts w = (Inr doc, w')"
  then obtain doc w' where "convertFhirToQrda C K b opts w = (Inr doc, w')" by blast
  then show "\<exists>p tNow tBirth tLow tHigh. validInput C b opts w p tNow tBirth tLow tHigh"
    by (rule convertFhirToQrda_returns_valid)
next
  assume "\<exists>p tNow tBirth tLow tHigh. validInput C b opts w p tNow tBirth tLow tHigh"
  then obtain p tNow tBirth tLow tHigh where "validInput C b opts w p tNow tBirth tLow tHigh"
    by blast
  from convertFhirToQrda_returns [OF this, of K]
  show "\<exists>doc w'. convertFhirToQrda C K b opts w = (Inr doc, w')" by blast
qed

text \<open>Three parts of the returned document, as the builders write them.\<close>

lemma convert_telecom:
  assumes "validInput C b opts w p tNow tBirth tLow tHigh"
  shows "\<exists>doc. convertFhirToQrda C K b opts w = (Inr doc, worldAfterConvert C w) \<and>
     getPath [Key ''recordTarget'', Key ''patientRole'', Key ''telecom''] doc =
       Some (JArray (
         (case find (\<lambda>t. cp_system t = Some ''phone'') (case pat_telecom p of None \<Rightarrow> [] | Some ts \<Rightarrow> ts) of
            None \<Rightarrow> []
          | Some t \<Rightarrow> [JObject [(''@_use'', JString ''HP''),
                                 (''@_value'', JString (''tel:'' @ toStr (cp_value t)))]]) @
         (case find (\<lambda>t. cp_system t = Some ''email'') (case pat_telecom p of None \<Rightarrow> [] | Some ts \<Rightarrow> ts) of
            None \<Rightarrow> []
          | Some t \<Rightarrow> [JObject [(''@_use'', JString ''HP''),
                                 (''@_value'', JString (''mailto:'' @ toStr (cp_value t)))]])))"
  using assms
  by (simp add: validInput_def builder_defs call_defs worldAfterConvert_def split_beta Let_def
      telecom_filter bind_find del: filter.simps)

lemma convert_addr:
  assumes "validInput C b opts w p tNow tBirth tLow tHigh"
  shows "\<exists>doc. convertFhirToQrda C K b opts w = (Inr doc, worldAfterConvert C w) \<and>
     getPath [Key ''recordTarget'', Key ''patientRole'', Key ''addr''] doc =
       Some (case Option.bind (pat_address p) index0 of
          Some a \<Rightarrow> JObject [
               (''@_use'', JString ''HP''),
               (''streetAddressLine'', JString (nullish (Option.bind (addr_line a) index0) '''')),
               (''city'', JString (nullish (addr_city a) '''')),
               (''state'', JString (nullish (addr_state a) '''')),
               (''postalCode'', JString (nullish (addr_postalCode a) '''')),
               (''country'', JString (orElse (addr_country a) ''US''))]
        | None \<Rightarrow> JUndefined)"
  using assms
  by (simp add: validInput_def builder_defs call_defs worldAfterConvert_def split_beta Let_def)

lemma convert_setId:
  assumes "validInput C b opts w p tNow tBirth tLow tHigh"
  shows "\<exists>doc. convertFhirToQrda C K b opts w = (Inr doc, worldAfterConvert C w) \<and>
     getPath [Key ''component'', Key ''structuredBody'', Key ''component'', Index 0,
              Key ''section'', Key ''entry'', Key ''organizer'', Key ''reference'',
              Key ''externalDocument'', Key ''setId''] doc
       = Some (JObject [(''@_root'',
            JString (orElse (Option.bind (opt_measure opts) measure_setId) CMS68V14_MEASURE_GUID))])"
  using assms
  by (simp add: validInput_def builder_defs call_defs worldAfterConvert_def split_beta Let_def)

lemma example_world: "worldAfterConvert exampleCollaborators 0 = 5"
  by (simp add: worldAfterConvert_def exampleCollaborators_def)

section \<open>The structured body\<close>

text \<open>
  Claim C2. On every valid input the component list of the returned document's
  structuredBody has exactly three elements, in this order: the measure section, the
  reporting-parameters section and the patient-data section, each known by its template
  identifiers, its LOINC code and its title.
\<close>

theorem structuredBody_three_sections:
  assumes "validInput C b opts w p tNow tBirth tLow tHigh"
  shows "\<exists>doc m r d.
     convertFhirToQrda C K b opts w = (Inr doc, worldAfterConvert C w) \<and>
     getPath [Key ''component'', Key ''structuredBody'', Key ''component''] doc = Some (JArray [m, r, d]) \<and>
     getPath [Key ''section'', Key ''templateId''] m = Some (QRDA_MEASURE_SECTION_TEMPLATE_IDS K) \<and>
     getPath [Key ''section'', Key ''code'', Key ''@_code''] m = Some (JString LOINC_MEASURE_DOCUMENT) \<and>
     getPath [Key ''section'', Key ''title''] m = Some (JString ''Measure Section'') \<and>
     getPath [Key ''section'', Key ''templateId''] r = Some (QRDA_REPORTING_PARAMETERS_TEMPLATE_IDS K) \<and>
     getPath [Key ''section'', Key ''code'', Key ''@_code''] r = Some (JString LOINC_REPORTING_PARAMETERS) \<and>
     getPath [Key ''section'', Key ''title''] r = Some (JString ''Reporting Parameters'') \<and>
     getPath [Key ''section'', Key ''templateId''] d = Some (QRDA_PATIENT_DATA_SECTION_TEMPLATE_IDS K) \<and>
     getPath [Key ''section'', Key ''code'', Key ''@_code''] d = Some (JString LOINC_PATIENT_DATA) \<and>
     getPath [Key ''section'', Key ''title''] d = Some (JString ''Patient Data'')"
  using assms
  by (simp add: validInput_def builder_defs call_defs worldAfterConvert_def split_beta Let_def
      buildPatientDataSection_def)

theorem structuredBody_three_sections_witness:
  "\<exists>doc m r d.
     convertFhirToQrda exampleCollaborators exampleOids exampleBundle exampleOptions 0 = (Inr doc, 5) \<and>
     getPath [Key ''component'', Key ''structuredBody'', Key ''component''] doc = Some (JArray [m, r, d]) \<and>
     getPath [Key ''section'', Key ''title''] m = Some (JString ''Measure Section'') \<and>
     getPath [Key ''section'', Key ''title''] r = Some (JString ''Reporting Parameters'') \<and>
     getPath [Key ''section'', Key ''title''] d = Some (JString ''Patient Data'')"
  using structuredBody_three_sections [OF example_valid, of exampleOids]
  unfolding example_world by blast

section \<open>The header\<close>

text \<open>
  Claim C3. On every valid input the templateId of the returned document is the table
  \<^verbatim>\<open>QRDA_CATEGORY_I_TEMPLATE_IDS\<close>, and that table is these four identifiers in this
  order: US Realm CDA header with extension 2015-08-01, QRDA Category I with 2017-08-01,
  QDM-based QRDA with 2021-08-01, CMS QRDA Category I with 2022-02-01.
\<close>

theorem header_templateId:
  assumes "validInput C b opts w p tNow tBirth tLow tHigh"
  shows "\<exists>doc. convertFhirToQrda C K b opts w = (Inr doc, worldAfterConvert C w) \<and>
     getPath [Key ''templateId''] doc = Some (QRDA_CATEGORY_I_TEMPLATE_IDS K) \<and>
     QRDA_CATEGORY_I_TEMPLATE_IDS K = JArray [
       JObject [(''@_root'', JString (OID_US_REALM_CDA_HEADER K)), (''@_extension'', JString ''2015-08-01'')],
       JObject [(''@_root'', JString (OID_QRDA_CATEGORY_I K)), (''@_extension'', JString ''2017-08-01'')],
       JObject [(''@_root'', JString (OID_QDM_BASED_QRDA K)), (''@_extension'', JString ''2021-08-01'')],
       JObject [(''@_root'', JString (OID_CMS_QRDA_CATEGORY_I K)), (''@_extension'', JString ''2022-02-01'')]]"
  using assms
  by (simp add: validInput_def builder_defs call_defs worldAfterConvert_def split_beta Let_def
      QRDA_CATEGORY_I_TEMPLATE_IDS_def)

theorem header_templateId_witness:
  "\<exists>doc. convertFhirToQrda exampleCollaborators exampleOids exampleBundle exampleOptions 0 = (Inr doc, 5) \<and>
     getPath [Key ''templateId''] doc = Some (JArray [
       JObject [(''@_root'', JString ''oid.3''), (''@_extension'', JString ''2015-08-01'')],
       JObject [(''@_root'', JString ''oid.19''), (''@_extension'', JString ''2017-08-01'')],
       JObject [(''@_root'', JString ''oid.18''), (''@_extension'', JString ''2021-08-01'')],
       JObject [(''@_root'', JString ''oid.10''), (''@_extension'', JString ''2022-02-01'')]])"
proof -
  from header_templateId [OF example_valid, of exampleOids]
  obtain doc where doc: "convertFhirToQrda exampleCollaborators exampleOids exampleBundle exampleOptions 0
      = (Inr doc, 5)"
    and ids: "getPath [Key ''templateId''] doc = Some (QRDA_CATEGORY_I_TEMPLATE_IDS exampleOids)"
    unfolding example_world by blast
  have table: "QRDA_CATEGORY_I_TEMPLATE_IDS exampleOids = JArray [
       JObject [(''@_root'', JString ''oid.3''), (''@_extension'', JString ''2015-08-01'')],
       JObject [(''@_root'', JString ''oid.19''), (''@_extension'', JString ''2017-08-01'')],
       JObject [(''@_root'', JString ''oid.18''), (''@_extension'', JString ''2021-08-01'')],
       JObject [(''@_root'', JString ''oid.10''), (''@_extension'', JString ''2022-02-01'')]]"
    by (simp add: QRDA_CATEGORY_I_TEMPLATE_IDS_def exampleOids_def)
  from doc ids show ?thesis unfolding table by blast
qed

text \<open>
  Claim C6. On every valid input (that is, for every build that returns) the clock is
  read once, in the world the call starts in, and the canonical form \<open>tNow\<close> of that one
  reading is the value of the document's effectiveTime, of the author's time and of the
  legal authenticator's time. The world the call leaves is the one after that single
  reading and four generated identifiers: the clock is not read again.
\<close>

theorem header_timestamps_agree:
  assumes "validInput C b opts w p tNow tBirth tLow tHigh"
  shows "\<exists>doc. convertFhirToQrda C K b opts w = (Inr doc, worldAfterConvert C w) \<and>
     mapFhirToCcdaDateTime C (fst (newDateToISOString C w)) = Inr tNow \<and>
     getPath [Key ''effectiveTime''] doc = Some (JArray [JObject [(''@_value'', tNow)]]) \<and>
     getPath [Key ''author'', Key ''time''] doc = Some (JObject [(''@_value'', tNow)]) \<and>
     getPath [Key ''legalAuthenticator'', Key ''time''] doc = Some (JObject [(''@_value'', tNow)])"
  using assms
  by (simp add: validInput_def builder_defs call_defs worldAfterConvert_def split_beta Let_def)

theorem header_timestamps_agree_witness:
  "\<exists>doc. convertFhirToQrda exampleCollaborators exampleOids exampleBundle exampleOptions 0 = (Inr doc, 5) \<and>
     getPath [Key ''effectiveTime''] doc = Some (JArray [JObject [(''@_value'', JString ''20240301T102030Z'')]]) \<and>
     getPath [Key ''author'', Key ''time''] doc = Some (JObject [(''@_value'', JString ''20240301T102030Z'')]) \<and>
     getPath [Key ''legalAuthenticator'', Key ''time''] doc
       = Some (JObject [(''@_value'', JString ''20240301T102030Z'')])"
  using header_timestamps_agree [OF example_valid, of exampleOids]
  unfolding example_world by blast

section \<open>The reporting-parameters section\<close>

text \<open>
  Claim C4. On every valid input the second section is the reporting-parameters section,
  and the effectiveTime of its act has as low value the canonical form of
  \<^verbatim>\<open>reportingPeriod.start\<close> and as high value the canonical form of
  \<^verbatim>\<open>reportingPeriod.end\<close>. The witness is the period from 2023-01-01 to 2023-12-31.
\<close>

theorem reportingParameters_effectiveTime:
  assumes "validInput C b opts w p tNow tBirth tLow tHigh"
  shows "\<exists>doc. convertFhirToQrda C K b opts w = (Inr doc, worldAfterConvert C w) \<and>
     mapFhirToCcdaDateTime C (period_start (opt_reportingPeriod opts)) = Inr tLow \<and>
     mapFhirToCcdaDateTime C (period_end (opt_reportingPeriod opts)) = Inr tHigh \<and>
     getPath [Key ''component'', Key ''structuredBody'', Key ''component'', Index 1,
              Key ''section'', Key ''title''] doc = Some (JString ''Reporting Parameters'') \<and>
     getPath [Key ''component'', Key ''structuredBody'', Key ''component'', Index 1,
              Key ''section'', Key ''entry'', Key ''act'', Key ''effectiveTime''] doc
       = Some (JObject [(''low'', JObject [(''@_value'', tLow)]),
                        (''high'', JObject [(''@_value'', tHigh)])])"
  using assms
  by (simp add: validInput_def builder_defs call_defs worldAfterConvert_def split_beta Let_def)

theorem reportingParameters_effectiveTime_witness:
  "period_start (opt_reportingPeriod exampleOptions) = ''2023-01-01'' \<and>
   period_end (opt_reportingPeriod exampleOptions) = ''2023-12-31'' \<and>
   mapFhirToCcdaDateTime exampleCollaborators ''2023-01-01'' = Inr (JString ''20230101'') \<and>
   mapFhirToCcdaDateTime exampleCollaborators ''2023-12-31'' = Inr (JString ''20231231'') \<and>
   (\<exists>doc. convertFhirToQrda exampleCollaborators exampleOids exampleBundle exampleOptions 0 = (Inr doc, 5) \<and>
     getPath [Key ''component'', Key ''structuredBody'', Key ''component'', Index 1,
              Key ''section'', Key ''entry'', Key ''act'', Key ''effectiveTime''] doc
       = Some (JObject [(''low'', JObject [(''@_value'', JString ''20230101'')]),
                        (''high'', JObject [(''@_value'', JString ''20231231'')])]))"
proof -
  have period: "period_start (opt_reportingPeriod exampleOptions) = ''2023-01-01''"
    "period_end (opt_reportingPeriod exampleOptions) = ''2023-12-31''"
    by (simp_all add: exampleOptions_def)
  from reportingParameters_effectiveTime [OF example_valid, of exampleOids]
  show ?thesis unfolding example_world period by blast
qed

section \<open>The patient-data section\<close>

text \<open>
  Claim C5. On every valid input the third section of the returned document is the
  patient-data section: it is there, with its three template identifiers, the LOINC code
  55188-7 for patient data and the title Patient Data, and its entry list is empty.
\<close>

theorem patientData_section_empty:
  assumes "validInput C b opts w p tNow tBirth tLow tHigh"
  shows "\<exists>doc. convertFhirToQrda C K b opts w = (Inr doc, worldAfterConvert C w) \<and>
     getPath [Key ''component'', Key ''structuredBody'', Key ''component'', Index 2] doc
       = Some (JObject [(''section'', JObject [
           (''templateId'', JArray [
              JObject [(''@_root'', JString (OID_PATIENT_DATA_SECTION K))],
              JObject [(''@_root'', JString (OID_PATIENT_DATA_SECTION_QDM_V8 K)),
                       (''@_extension'', JString ''2021-08-01'')],
              JObject [(''@_root'', JString (OID_PATIENT_DATA_SECTION_QDM_V8_CMS K)),
                       (''@_extension'', JString ''2022-02-01'')]]),
           (''code'', JObject [(''@_code'', JString ''55188-7''),
                               (''@_codeSystem'', JString (OID_LOINC_CODE_SYSTEM K))]),
           (''title'', JString ''Patient Data''),
           (''text'', JString ''''),
           (''entry'', JArray [])])]) \<and>
     getPath [Key ''component'', Key ''structuredBody'', Key ''component'', Index 2,
              Key ''section'', Key ''entry''] doc = Some (JArray [])"
  using assms
  by (simp add: validInput_def builder_defs call_defs worldAfterConvert_def split_beta Let_def
      buildPatientDataSection_def QRDA_PATIENT_DATA_SECTION_TEMPLATE_IDS_def LOINC_PATIENT_DATA_def
      numeral_2_eq_2)

theorem patientData_section_empty_witness:
  "\<exists>doc. convertFhirToQrda exampleCollaborators exampleOids exampleBundle exampleOptions 0 = (Inr doc, 5) \<and>
     getPath [Key ''component'', Key ''structuredBody'', Key ''component'', Index 2,
              Key ''section'', Key ''title''] doc = Some (JString ''Patient Data'') \<and>
     getPath [Key ''component'', Key ''structuredBody'', Key ''component'', Index 2,
              Key ''section'', Key ''entry''] doc = Some (JArray [])"
proof -
  from patientData_section_empty [OF example_valid, of exampleOids]
  obtain doc where doc: "convertFhirToQrda exampleCollaborators exampleOids exampleBundle exampleOptions 0
      = (Inr doc, 5)"
    and sec: "getPath [Key ''component'', Key ''structuredBody'', Key ''component'', Index 2] doc
       = Some (JObject [(''section'', JObject [
           (''templateId'', JArray [
              JObject [(''@_root'', JString (OID_PATIENT_DATA_SECTION exampleOids))],
              JObject [(''@_root'', JString (OID_PATIENT_DATA_SECTION_QDM_V8 exampleOids)),
                       (''@_extension'', JString ''2021-08-01'')],
              JObject [(''@_root'', JString (OID_PATIENT_DATA_SECTION_QDM_V8_CMS exampleOids)),
                       (''@_extension'', JString ''2022-02-01'')]]),
           (''code'', JObject [(''@_code'', JString ''55188-7''),
                               (''@_codeSystem'', JString (OID_LOINC_CODE_SYSTEM exampleOids))]),
           (''title'', JString ''Patient Data''),
           (''text'', JString ''''),
           (''entry'', JArray [])])])"
    and entry: "getPath [Key ''component'', Key ''structuredBody'', Key ''component'', Index 2,
              Key ''section'', Key ''entry''] doc = Some (JArray [])"
    unfolding example_world by blast
  have path: "getPath (ks @ ks') v = (case getPath ks v of None \<Rightarrow> None | Some u \<Rightarrow> getPath ks' u)"
    for ks ks' v
    by (induction ks arbitrary: v) (simp_all split: option.splits)
  have "getPath ([Key ''component'', Key ''structuredBody'', Key ''component'', Index 2]
          @ [Key ''section'', Key ''title'']) doc = Some (JString ''Patient Data'')"
    unfolding path sec by simp
  with doc entry show ?thesis by auto
qed

section \<open>The record target\<close>

text \<open>
  Claim C7. On every valid input the telecom list of the record target is built entry by
  entry from the patient \<open>p\<close>: the first telecom with system phone, when there is one,
  gives an entry with value \<^verbatim>\<open>tel:\<close> followed by its value, then the first telecom
  with system email, when there is one, gives an entry with value \<^verbatim>\<open>mailto:\<close> followed
  by its value; each is there only when present, whatever the other is. So a patient with
  no telecom entries has the empty list, a first phone telecom with value 555-1234 gives
  an entry with value tel:555-1234, and a first email telecom with value \<open>v\<close> gives an
  entry with value mailto:\<open>v\<close>.
\<close>

theorem recordTarget_telecom:
  assumes "validInput C b opts w p tNow tBirth tLow tHigh"
  shows "\<exists>doc tel.
     convertFhirToQrda C K b opts w = (Inr doc, worldAfterConvert C w) \<and>
     getPath [Key ''recordTarget'', Key ''patientRole'', Key ''telecom''] doc = Some (JArray tel) \<and>
     tel =
       (case find (\<lambda>t. cp_system t = Some ''phone'') (case pat_telecom p of None \<Rightarrow> [] | Some ts \<Rightarrow> ts) of
          None \<Rightarrow> []
        | Some t \<Rightarrow> [JObject [(''@_use'', JString ''HP''),
                               (''@_value'', JString (''tel:'' @ toStr (cp_value t)))]]) @
       (case find (\<lambda>t. cp_system t = Some ''email'') (case pat_telecom p of None \<Rightarrow> [] | Some ts \<Rightarrow> ts) of
          None \<Rightarrow> []
        | Some t \<Rightarrow> [JObject [(''@_use'', JString ''HP''),
                               (''@_value'', JString (''mailto:'' @ toStr (cp_value t)))]]) \<and>
     (pat_telecom p = None \<or> pat_telecom p = Some [] \<longrightarrow> tel = []) \<and>
     (\<forall>ts t. pat_telecom p = Some ts \<and> find (\<lambda>t. cp_system t = Some ''phone'') ts = Some t \<and>
             cp_value t = Some ''555-1234'' \<longrightarrow>
        JObject [(''@_use'', JString ''HP''), (''@_value'', JString ''tel:555-1234'')] \<in> set tel) \<and>
     (\<forall>ts t v. pat_telecom p = Some ts \<and> find (\<lambda>t. cp_system t = Some ''email'') ts = Some t \<and>
             cp_value t = Some v \<longrightarrow>
        JObject [(''@_use'', JString ''HP''), (''@_value'', JString (''mailto:'' @ v))] \<in> set tel)"
proof -
  let ?ts = "case pat_telecom p of None \<Rightarrow> [] | Some ts \<Rightarrow> ts"
  let ?phone = "case find (\<lambda>t. cp_system t = Some ''phone'') ?ts of
          None \<Rightarrow> []
        | Some t \<Rightarrow> [JObject [(''@_use'', JString ''HP''),
                               (''@_value'', JString (''tel:'' @ toStr (cp_value t)))]]"
  let ?email = "case find (\<lambda>t. cp_system t = Some ''email'') ?ts of
          None \<Rightarrow> []
        | Some t \<Rightarrow> [JObject [(''@_use'', JString ''HP''),
                               (''@_value'', JString (''mailto:'' @ toStr (cp_value t)))]]"
  from convert_telecom [OF assms, of K]
  obtain doc where doc: "convertFhirToQrda C K b opts w = (Inr doc, worldAfterConvert C w)"
    and tel: "getPath [Key ''recordTarget'', Key ''patientRole'', Key ''telecom''] doc
                = Some (JArray (?phone @ ?email))"
    by blast
  have none: "pat_telecom p = None \<or> pat_telecom p = Some [] \<longrightarrow> ?phone @ ?email = []"
    by auto
  have phone: "\<forall>ts t. pat_telecom p = Some ts \<and> find (\<lambda>t. cp_system t = Some ''phone'') ts = Some t \<and>
             cp_value t = Some ''555-1234'' \<longrightarrow>
        JObject [(''@_use'', JString ''HP''), (''@_value'', JString ''tel:555-1234'')] \<in> set (?phone @ ?email)"
    by (auto simp: toStr_def)
  have email: "\<forall>ts t v. pat_telecom p = Some ts \<and> find (\<lambda>t. cp_system t = Some ''email'') ts = Some t \<and>
             cp_value t = Some v \<longrightarrow>
        JObject [(''@_use'', JString ''HP''), (''@_value'', JString (''mailto:'' @ v))] \<in> set (?phone @ ?email)"
    by (auto simp: toStr_def)
  from doc tel none phone email show ?thesis by blast
qed

theorem recordTarget_telecom_witness:
  "\<exists>doc. convertFhirToQrda exampleCollaborators exampleOids exampleBundle exampleOptions 0 = (Inr doc, 5) \<and>
     getPath [Key ''recordTarget'', Key ''patientRole'', Key ''telecom''] doc = Some (JArray [
       JObject [(''@_use'', JString ''HP''), (''@_value'', JString ''tel:555-1234'')],
       JObject [(''@_use'', JString ''HP''), (''@_value'', JString ''mailto:ada@example.org'')]])"
proof -
  from recordTarget_telecom [OF example_valid, of exampleOids]
  obtain doc tel where doc: "convertFhirToQrda exampleCollaborators exampleOids exampleBundle exampleOptions 0
      = (Inr doc, 5)"
    and path: "getPath [Key ''recordTarget'', Key ''patientRole'', Key ''telecom''] doc = Some (JArray tel)"
    and tel: "tel =
       (case find (\<lambda>t. cp_system t = Some ''phone'')
               (case pat_telecom examplePatient of None \<Rightarrow> [] | Some ts \<Rightarrow> ts) of
          None \<Rightarrow> []
        | Some t \<Rightarrow> [JObject [(''@_use'', JString ''HP''),
                               (''@_value'', JString (''tel:'' @ toStr (cp_value t)))]]) @
       (case find (\<lambda>t. cp_system t = Some ''email'')
               (case pat_telecom examplePatient of None \<Rightarrow> [] | Some ts \<Rightarrow> ts) of
          None \<Rightarrow> []
        | Some t \<Rightarrow> [JObject [(''@_use'', JString ''HP''),
                               (''@_value'', JString (''mailto:'' @ toStr (cp_value t)))]])"
    unfolding example_world by blast
  have "tel = [
       JObject [(''@_use'', JString ''HP''), (''@_value'', JString ''tel:555-1234'')],
       JObject [(''@_use'', JString ''HP''), (''@_value'', JString ''mailto:ada@example.org'')]]"
    unfolding tel by (simp add: examplePatient_def toStr_def)
  with doc path show ?thesis by blast
qed

text \<open>
  Claim C10. On every valid input, when the patient \<open>p\<close> has at least one address the
  record target has an address block, built from the first address: its country is never
  empty, being US when the address has no country or the empty string as country and the
  address's country otherwise, while street address line, city, state and postal code are
  the empty string when absent. When the patient has no address the block is
  \<^verbatim>\<open>undefined\<close>: it is left out, not filled with defaults.
\<close>

theorem recordTarget_addr:
  assumes "validInput C b opts w p tNow tBirth tLow tHigh"
  shows "\<exists>doc addr.
     convertFhirToQrda C K b opts w = (Inr doc, worldAfterConvert C w) \<and>
     getPath [Key ''recordTarget'', Key ''patientRole'', Key ''addr''] doc = Some addr \<and>
     (pat_address p = None \<or> pat_address p = Some [] \<longrightarrow> addr = JUndefined) \<and>
     (\<forall>a as. pat_address p = Some (a # as) \<longrightarrow>
        (\<exists>country. country \<noteq> '''' \<and>
           country = (case addr_country a of None \<Rightarrow> ''US'' | Some c \<Rightarrow> if c = '''' then ''US'' else c) \<and>
           addr = JObject [
             (''@_use'', JString ''HP''),
             (''streetAddressLine'', JString (case addr_line a of Some (l # ls) \<Rightarrow> l | _ \<Rightarrow> '''')),
             (''city'', JString (case addr_city a of None \<Rightarrow> '''' | Some c \<Rightarrow> c)),
             (''state'', JString (case addr_state a of None \<Rightarrow> '''' | Some s \<Rightarrow> s)),
             (''postalCode'', JString (case addr_postalCode a of None \<Rightarrow> '''' | Some z \<Rightarrow> z)),
             (''country'', JString country)]))"
proof -
  let ?addr = "case Option.bind (pat_address p) index0 of
          Some a \<Rightarrow> JObject [
               (''@_use'', JString ''HP''),
               (''streetAddressLine'', JString (nullish (Option.bind (addr_line a) index0) '''')),
               (''city'', JString (nullish (addr_city a) '''')),
               (''state'', JString (nullish (addr_state a) '''')),
               (''postalCode'', JString (nullish (addr_postalCode a) '''')),
               (''country'', JString (orElse (addr_country a) ''US''))]
        | None \<Rightarrow> JUndefined"
  from convert_addr [OF assms, of K]
  obtain doc where doc: "convertFhirToQrda C K b opts w = (Inr doc, worldAfterConvert C w)"
    and addr: "getPath [Key ''recordTarget'', Key ''patientRole'', Key ''addr''] doc = Some ?addr"
    by blast
  have omitted: "pat_address p = None \<or> pat_address p = Some [] \<longrightarrow> ?addr = JUndefined"
    by (auto simp: index0_def)
  have present: "\<forall>a as. pat_address p = Some (a # as) \<longrightarrow>
        (\<exists>country. country \<noteq> '''' \<and>
           country = (case addr_country a of None \<Rightarrow> ''US'' | Some c \<Rightarrow> if c = '''' then ''US'' else c) \<and>
           ?addr = JObject [
             (''@_use'', JString ''HP''),
             (''streetAddressLine'', JString (case addr_line a of Some (l # ls) \<Rightarrow> l | _ \<Rightarrow> '''')),
             (''city'', JString (case addr_city a of None \<Rightarrow> '''' | Some c \<Rightarrow> c)),
             (''state'', JString (case addr_state a of None \<Rightarrow> '''' | Some s \<Rightarrow> s)),
             (''postalCode'', JString (case addr_postalCode a of None \<Rightarrow> '''' | Some z \<Rightarrow> z)),
             (''country'', JString country)])"
  proof (intro allI impI)
    fix a as
    assume a: "pat_address p = Some (a # as)"
    let ?country = "case addr_country a of None \<Rightarrow> ''US'' | Some c \<Rightarrow> if c = '''' then ''US'' else c"
    have 1: "?country \<noteq> ''''"
      by (simp split: option.splits)
    have 2: "orElse (addr_country a) ''US'' = ?country"
      by (simp add: orElse_def)
    have 3: "nullish (Option.bind (addr_line a) index0) '''' = (case addr_line a of Some (l # ls) \<Rightarrow> l | _ \<Rightarrow> '''')"
      by (simp add: nullish_def index0_def split: option.splits list.splits)
    have 4: "nullish (addr_city a) '''' = (case addr_city a of None \<Rightarrow> '''' | Some c \<Rightarrow> c)"
      "nullish (addr_state a) '''' = (case addr_state a of None \<Rightarrow> '''' | Some c \<Rightarrow> c)"
      "nullish (addr_postalCode a) '''' = (case addr_postalCode a of None \<Rightarrow> '''' | Some c \<Rightarrow> c)"
      by (simp_all add: nullish_def)
    have 5: "Option.bind (pat_address p) index0 = Some a"
      using a by (simp add: index0_def)
    show "\<exists>country. country \<noteq> '''' \<and>
           country = ?country \<and>
           ?addr = JObject [
             (''@_use'', JString ''HP''),
             (''streetAddressLine'', JString (case addr_line a of Some (l # ls) \<Rightarrow> l | _ \<Rightarrow> '''')),
             (''city'', JString (case addr_city a of None \<Rightarrow> '''' | Some c \<Rightarrow> c)),
             (''state'', JString (case addr_state a of None \<Rightarrow> '''' | Some s \<Rightarrow> s)),
             (''postalCode'', JString (case addr_postalCode a of None \<Rightarrow> '''' | Some z \<Rightarrow> z)),
             (''country'', JString country)]"
      using 1 by (simp only: 2 3 4 5 option.case) simp
  qed
  show ?thesis
    by (intro exI [of _ doc] exI [of _ ?addr] conjI doc addr omitted present)
qed

theorem recordTarget_addr_witness:
  "\<exists>doc. convertFhirToQrda exampleCollaborators exampleOids exampleBundle exampleOptions 0 = (Inr doc, 5) \<and>
     getPath [Key ''recordTarget'', Key ''patientRole'', Key ''addr''] doc = Some (JObject [
       (''@_use'', JString ''HP''),
       (''streetAddressLine'', JString ''''),
       (''city'', JString ''Boston''),
       (''state'', JString ''''),
       (''postalCode'', JString ''''),
       (''country'', JString ''US'')])"
proof -
  let ?a = "\<lparr>addr_line = None, addr_city = Some ''Boston'', addr_state = None,
             addr_postalCode = None, addr_country = Some ''''\<rparr>"
  have a: "pat_address examplePatient = Some (?a # [])"
    by (simp add: examplePatient_def)
  from recordTarget_addr [OF example_valid, of exampleOids]
  obtain doc addr where doc: "convertFhirToQrda exampleCollaborators exampleOids exampleBundle exampleOptions 0
      = (Inr doc, 5)"
    and path: "getPath [Key ''recordTarget'', Key ''patientRole'', Key ''addr''] doc = Some addr"
    and present: "\<forall>a as. pat_address examplePatient = Some (a # as) \<longrightarrow>
        (\<exists>country. country \<noteq> '''' \<and>
           country = (case addr_country a of None \<Rightarrow> ''US'' | Some c \<Rightarrow> if c = '''' then ''US'' else c) \<and>
           addr = JObject [
             (''@_use'', JString ''HP''),
             (''streetAddressLine'', JString (case addr_line a of Some (l # ls) \<Rightarrow> l | _ \<Rightarrow> '''')),
             (''city'', JString (case addr_city a of None \<Rightarrow> '''' | Some c \<Rightarrow> c)),
             (''state'', JString (case addr_state a of None \<Rightarrow> '''' | Some s \<Rightarrow> s)),
             (''postalCode'', JString (case addr_postalCode a of None \<Rightarrow> '''' | Some z \<Rightarrow> z)),
             (''country'', JString country)])"
    unfolding example_world by blast
  from present a have "addr = JObject [
       (''@_use'', JString ''HP''),
       (''streetAddressLine'', JString ''''),
       (''city'', JString ''Boston''),
       (''state'', JString ''''),
       (''postalCode'', JString ''''),
       (''country'', JString ''US'')]"
    by simp
  with doc path show ?thesis by blast
qed

section \<open>The measure section\<close>

lemma getPath_append:
  "getPath (ks @ ks') v = (case getPath ks v of None \<Rightarrow> None | Some u \<Rightarrow> getPath ks' u)"
  by (induction ks arbitrary: v) (simp_all split: option.splits)

text \<open>
  Claim C8, amended. On every valid input the root of the setId of the measure section's
  externalDocument is the constant \<^verbatim>\<open>CMS68V14_MEASURE_GUID\<close>
  (9A032D9C-3D9B-11E1-8634-00237D5BF174) when no measure option is given, and also when
  the measure option has no setId or the empty string as setId; when
  \<^verbatim>\<open>options.measure.setId\<close> is given and is not the empty string, the root is that
  value.
\<close>

theorem measureSection_setId:
  assumes "validInput C b opts w p tNow tBirth tLow tHigh"
  shows "\<exists>doc root.
     convertFhirToQrda C K b opts w = (Inr doc, worldAfterConvert C w) \<and>
     getPath [Key ''component'', Key ''structuredBody'', Key ''component'', Index 0,
              Key ''section'', Key ''entry'', Key ''organizer'', Key ''reference'',
              Key ''externalDocument'', Key ''setId''] doc = Some (JObject [(''@_root'', JString root)]) \<and>
     CMS68V14_MEASURE_GUID = ''9A032D9C-3D9B-11E1-8634-00237D5BF174'' \<and>
     (opt_measure opts = None \<longrightarrow> root = CMS68V14_MEASURE_GUID) \<and>
     (\<forall>m. opt_measure opts = Some m \<and> (measure_setId m = None \<or> measure_setId m = Some '''')
        \<longrightarrow> root = CMS68V14_MEASURE_GUID) \<and>
     (\<forall>m s. opt_measure opts = Some m \<and> measure_setId m = Some s \<and> s \<noteq> '''' \<longrightarrow> root = s)"
proof -
  let ?root = "orElse (Option.bind (opt_measure opts) measure_setId) CMS68V14_MEASURE_GUID"
  from convert_setId [OF assms, of K]
  obtain doc where doc: "convertFhirToQrda C K b opts w = (Inr doc, worldAfterConvert C w)"
    and setId: "getPath [Key ''component'', Key ''structuredBody'', Key ''component'', Index 0,
              Key ''section'', Key ''entry'', Key ''organizer'', Key ''reference'',
              Key ''externalDocument'', Key ''setId''] doc = Some (JObject [(''@_root'', JString ?root)])"
    by blast
  have guid: "CMS68V14_MEASURE_GUID = ''9A032D9C-3D9B-11E1-8634-00237D5BF174''"
    by (simp add: CMS68V14_MEASURE_GUID_def)
  have absent: "opt_measure opts = None \<longrightarrow> ?root = CMS68V14_MEASURE_GUID"
    by (simp add: orElse_def)
  have empty: "\<forall>m. opt_measure opts = Some m \<and> (measure_setId m = None \<or> measure_setId m = Some '''')
        \<longrightarrow> ?root = CMS68V14_MEASURE_GUID"
    by (auto simp: orElse_def)
  have supplied: "\<forall>m s. opt_measure opts = Some m \<and> measure_setId m = Some s \<and> s \<noteq> '''' \<longrightarrow> ?root = s"
    by (auto simp: orElse_def)
  show ?thesis
    by (intro exI [of _ doc] exI [of _ ?root] conjI doc setId guid absent empty supplied)
qed

text \<open>
  The witness runs the converter twice: with no measure option, and with the example
  measure, whose setId is F2986519-5A4E-4149-A8F2-AF0A1DC7F6BC.
\<close>

theorem measureSection_setId_witness:
  "(\<exists>doc. convertFhirToQrda exampleCollaborators exampleOids exampleBundle exampleOptions 0 = (Inr doc, 5) \<and>
      getPath [Key ''component'', Key ''structuredBody'', Key ''component'', Index 0,
               Key ''section'', Key ''entry'', Key ''organizer'', Key ''reference'',
               Key ''externalDocument'', Key ''setId''] doc
        = Some (JObject [(''@_root'', JString ''9A032D9C-3D9B-11E1-8634-00237D5BF174'')])) \<and>
   (\<exists>doc. convertFhirToQrda exampleCollaborators exampleOids exampleBundle
             (exampleOptions\<lparr>opt_measure := Some exampleMeasure\<rparr>) 0 = (Inr doc, 5) \<and>
      getPath [Key ''component'', Key ''structuredBody'', Key ''component'', Index 0,
               Key ''section'', Key ''entry'', Key ''organizer'', Key ''reference'',
               Key ''externalDocument'', Key ''setId''] doc
        = Some (JObject [(''@_root'', JString ''F2986519-5A4E-4149-A8F2-AF0A1DC7F6BC'')]))"
proof
  have none: "opt_measure exampleOptions = None"
    by (simp add: exampleOptions_def)
  from measureSection_setId [OF example_valid, of exampleOids] none
  show "\<exists>doc. convertFhirToQrda exampleCollaborators exampleOids exampleBundle exampleOptions 0 = (Inr doc, 5) \<and>
      getPath [Key ''component'', Key ''structuredBody'', Key ''component'', Index 0,
               Key ''section'', Key ''entry'', Key ''organizer'', Key ''reference'',
               Key ''externalDocument'', Key ''setId''] doc
        = Some (JObject [(''@_root'', JString ''9A032D9C-3D9B-11E1-8634-00237D5BF174'')])"
    unfolding example_world by auto
next
  let ?opts = "exampleOptions\<lparr>opt_measure := Some exampleMeasure\<rparr>"
  have valid: "validInput exampleCollaborators exampleBundle ?opts 0 examplePatient
     (JString ''20240301T102030Z'') (JString ''19800203T000000.000Z'')
     (JString ''20230101'') (JString ''20231231'')"
    using example_valid by (simp only: validInput_measure)
  have some: "opt_measure ?opts = Some exampleMeasure"
    "measure_setId exampleMeasure = Some ''F2986519-5A4E-4149-A8F2-AF0A1DC7F6BC''"
    "''F2986519-5A4E-4149-A8F2-AF0A1DC7F6BC'' \<noteq> ''''"
    by (simp_all add: exampleMeasure_def)
  from measureSection_setId [OF valid, of exampleOids] some
  show "\<exists>doc. convertFhirToQrda exampleCollaborators exampleOids exampleBundle ?opts 0 = (Inr doc, 5) \<and>
      getPath [Key ''component'', Key ''structuredBody'', Key ''component'', Index 0,
               Key ''section'', Key ''entry'', Key ''organizer'', Key ''reference'',
               Key ''externalDocument'', Key ''setId''] doc
        = Some (JObject [(''@_root'', JString ''F2986519-5A4E-4149-A8F2-AF0A1DC7F6BC'')])"
    unfolding example_world by auto
qed

text \<open>
  As first stated, claim C8 says that a supplied \<^verbatim>\<open>options.measure.setId\<close> is the
  root. It is not when the supplied value is the empty string: \<^verbatim>\<open>||\<close> then takes the
  default, as it does for every other option of the converter.
\<close>

theorem measureSection_setId_empty_counterexample:
  "Option.bind (opt_measure (exampleOptions\<lparr>opt_measure := Some (exampleMeasure\<lparr>measure_setId := Some ''''\<rparr>)\<rparr>))
     measure_setId = Some '''' \<and>
   map_sum id
     (getPath [Key ''component'', Key ''structuredBody'', Key ''component'', Index 0,
               Key ''section'', Key ''entry'', Key ''organizer'', Key ''reference'',
               Key ''externalDocument'', Key ''setId'', Key ''@_root''])
     (fst (convertFhirToQrda exampleCollaborators exampleOids exampleBundle
            (exampleOptions\<lparr>opt_measure := Some (exampleMeasure\<lparr>measure_setId := Some ''''\<rparr>)\<rparr>) 0))
     = Inr (Some (JString ''9A032D9C-3D9B-11E1-8634-00237D5BF174''))"
proof
  let ?opts = "exampleOptions\<lparr>opt_measure := Some (exampleMeasure\<lparr>measure_setId := Some ''''\<rparr>)\<rparr>"
  show "Option.bind (opt_measure ?opts) measure_setId = Some ''''"
    by simp
  have valid: "validInput exampleCollaborators exampleBundle ?opts 0 examplePatient
     (JString ''20240301T102030Z'') (JString ''19800203T000000.000Z'')
     (JString ''20230101'') (JString ''20231231'')"
    using example_valid by (simp only: validInput_measure)
  have root: "orElse (Option.bind (opt_measure ?opts) measure_setId) CMS68V14_MEASURE_GUID
      = ''9A032D9C-3D9B-11E1-8634-00237D5BF174''"
    by (simp add: orElse_def CMS68V14_MEASURE_GUID_def)
  from convert_setId [OF valid, of exampleOids]
  obtain doc where doc: "convertFhirToQrda exampleCollaborators exampleOids exampleBundle ?opts 0 = (Inr doc, 5)"
    and setId: "getPath [Key ''component'', Key ''structuredBody'', Key ''component'', Index 0,
              Key ''section'', Key ''entry'', Key ''organizer'', Key ''reference'',
              Key ''externalDocument'', Key ''setId''] doc
        = Some (JObject [(''@_root'', JString ''9A032D9C-3D9B-11E1-8634-00237D5BF174'')])"
    unfolding example_world root by blast
  have "getPath ([Key ''component'', Key ''structuredBody'', Key ''component'', Index 0,
              Key ''section'', Key ''entry'', Key ''organizer'', Key ''reference'',
              Key ''externalDocument'', Key ''setId''] @ [Key ''@_root'']) doc
        = Some (JString ''9A032D9C-3D9B-11E1-8634-00237D5BF174'')"
    unfolding getPath_append setId by simp
  then show "map_sum id
     (getPath [Key ''component'', Key ''structuredBody'', Key ''component'', Index 0,
               Key ''section'', Key ''entry'', Key ''organizer'', Key ''reference'',
               Key ''externalDocument'', Key ''setId'', Key ''@_root''])
     (fst (convertFhirToQrda exampleCollaborators exampleOids exampleBundle ?opts 0))
     = Inr (Some (JString ''9A032D9C-3D9B-11E1-8634-00237D5BF174''))"
    by (simp add: doc)
qed

text \<open>
  What the converter reads of its options: the reporting period, the organization, the
  author, and the title and setId of the measure. Two option records that agree on these
  give the same result; the category and the measure's id and version are not among them,
  and a measure option that is absent counts as one with no title and no setId.
\<close>

lemma convertFhirToQrda_reads:
  assumes "opt_reportingPeriod o1 = opt_reportingPeriod o2"
    and "opt_organization o1 = opt_organization o2"
    and "opt_author o1 = opt_author o2"
    and "Option.bind (opt_measure o1) measure_title = Option.bind (opt_measure o2) measure_title"
    and "Option.bind (opt_measure o1) measure_setId = Option.bind (opt_measure o2) measure_setId"
  shows "convertFhirToQrda C K b o1 w = convertFhirToQrda C K b o2 w"
proof (cases "findResource b ''Patient''")
  case None
  then show ?thesis
    by (simp add: convertFhirToQrda_def newFhirToQrdaConverter_def andThen_def throw_def)
next
  case (Some patient)
  have "convert C K \<lparr>this_bundle = b, this_options = o1, this_patient = patient\<rparr>
      = convert C K \<lparr>this_bundle = b, this_options = o2, this_patient = patient\<rparr>"
    by (simp add: builder_defs buildCustodian_def buildDocumentationOf_def Let_def assms)
  with Some show ?thesis
    by (simp add: convertFhirToQrda_def newFhirToQrdaConverter_def andThen_def ret_def)
qed

text \<open>
  Claim C9. \<^verbatim>\<open>options.measure.id\<close> and \<^verbatim>\<open>options.measure.version\<close> have no effect:
  for every bundle, two option records that differ only in these two fields give, with the
  same collaborators in the same world (so the same clock reading and the same generated
  identifiers), the same result, be it a document or an exception, and leave the same
  world. The version-specific identifier of the measure section's externalDocument is the
  constant 8A6D0454-8DF0-2D9F-018D-F6AEBA950637 whatever the options are.
\<close>

theorem measure_id_version_ignored:
  "convertFhirToQrda C K b (opts\<lparr>opt_measure := Some (m\<lparr>measure_id := i1, measure_version := v1\<rparr>)\<rparr>) w
     = convertFhirToQrda C K b (opts\<lparr>opt_measure := Some (m\<lparr>measure_id := i2, measure_version := v2\<rparr>)\<rparr>) w
   \<and> (\<exists>sec w'. buildMeasureSection C K this w = (Inr sec, w') \<and>
        getPath [Key ''section'', Key ''entry'', Key ''organizer'', Key ''reference'',
                 Key ''externalDocument'', Key ''id'', Key ''@_extension''] sec
          = Some (JString ''8A6D0454-8DF0-2D9F-018D-F6AEBA950637''))"
proof
  show "convertFhirToQrda C K b (opts\<lparr>opt_measure := Some (m\<lparr>measure_id := i1, measure_version := v1\<rparr>)\<rparr>) w
     = convertFhirToQrda C K b (opts\<lparr>opt_measure := Some (m\<lparr>measure_id := i2, measure_version := v2\<rparr>)\<rparr>) w"
  proof (cases "findResource b ''Patient''")
    case None
    then show ?thesis
      by (simp add: convertFhirToQrda_def newFhirToQrdaConverter_def andThen_def throw_def)
  next
    case (Some patient)
    have "convert C K \<lparr>this_bundle = b,
            this_options = opts\<lparr>opt_measure := Some (m\<lparr>measure_id := i1, measure_version := v1\<rparr>)\<rparr>,
            this_patient = patient\<rparr>
        = convert C K \<lparr>this_bundle = b,
            this_options = opts\<lparr>opt_measure := Some (m\<lparr>measure_id := i2, measure_version := v2\<rparr>)\<rparr>,
            this_patient = patient\<rparr>"
      by (simp add: builder_defs buildCustodian_def buildDocumentationOf_def Let_def)
    with Some show ?thesis
      by (simp add: convertFhirToQrda_def newFhirToQrdaConverter_def andThen_def ret_def)
  qed
  show "\<exists>sec w'. buildMeasureSection C K this w = (Inr sec, w') \<and>
        getPath [Key ''section'', Key ''entry'', Key ''organizer'', Key ''reference'',
                 Key ''externalDocument'', Key ''id'', Key ''@_extension''] sec
          = Some (JString ''8A6D0454-8DF0-2D9F-018D-F6AEBA950637'')"
    by (simp add: buildMeasureSection_def call_defs split_beta Let_def)
qed

end
